theory Spec2Isabelle
  imports Complex_Main
begin

section \<open>The LoRa airtime calculator of App.jsx\<close>

text \<open>
  All calculation logic of the repository lives in \<^verbatim>\<open>src/App.jsx\<close>: the function
  \<^verbatim>\<open>calcAirtime\<close>, two constant tables, and the body of the component \<^verbatim>\<open>App\<close>, which
  derives every displayed quantity from the component's state variables by a fixed sequence
  of \<^verbatim>\<open>const\<close> bindings.  Each binding becomes a definition of the same name over a record
  holding the state variables.

  A JavaScript number is modelled as a \<^typ>\<open>real\<close>: arithmetic is exact, so rounding of
  IEEE doubles is not part of the model.  The spreading factor is an \<^typ>\<open>int\<close>: it is set
  only from the select options 6..12 and from the presets, and it is used as an exponent.
  A quotient of \<^verbatim>\<open>calcAirtime\<close> is HOL's division; the source's quotient is a finite
  number exactly when the divisor is not zero, and theorems whose truth depends on such a
  quotient say so in a hypothesis.  The quotient by the transmit interval, whose divisor
  may be zero, and everything computed from it are numbers that need not be finite
  (type \<open>num\<close> below).  The \<^verbatim>\<open>Math.floor\<close> of \<^verbatim>\<open>max_tx_per_hour\<close> carries the
  rounding error of its argument as a parameter.
\<close>

subsection \<open>calcAirtime (Semtech AN1200.13)\<close>

text \<open>The three flags bound at the head of \<^verbatim>\<open>calcAirtime\<close>.\<close>

definition DE :: "bool \<Rightarrow> real" where
  "DE lowDROptimize = (if lowDROptimize then 1 else 0)"

definition IH :: "int \<Rightarrow> bool \<Rightarrow> real" where
  "IH sf' explicitHeader' = (if sf' = 6 \<or> \<not> explicitHeader' then 1 else 0)"

definition CRC :: "bool \<Rightarrow> real" where
  "CRC crc' = (if crc' then 1 else 0)"

text \<open>
  The parameters are those of the destructured argument object, in the source's order; a
  prime keeps them apart from the state variables of the same name.  \<^verbatim>\<open>Math.pow(2, sf)\<close>
  is \<open>2 powi sf\<close>, \<^verbatim>\<open>Math.ceil\<close> is \<open>ceiling\<close>, \<^verbatim>\<open>Math.max\<close> is \<open>max\<close>.
\<close>

definition calcAirtime ::
  "int \<Rightarrow> real \<Rightarrow> real \<Rightarrow> real \<Rightarrow> real \<Rightarrow> bool \<Rightarrow> bool \<Rightarrow> bool \<Rightarrow> real" where
  "calcAirtime sf' bw' preamble' payloadBytes cr' crc' explicitHeader' lowDROptimize =
     (let t_sym = (2 powi sf' / bw') * 1000;
          t_preamble = (preamble' + 4.25) * t_sym;
          inner = 8 * payloadBytes - 4 * of_int sf' + 28 + 16 * CRC crc'
                    - 20 * IH sf' explicitHeader';
          payload_sym_nb =
            8 + max (of_int \<lceil>inner / (4 * (of_int sf' - 2 * DE lowDROptimize))\<rceil> * (cr' + 4)) 0;
          t_payload = payload_sym_nb * t_sym
      in t_preamble + t_payload)"

subsection \<open>Constant tables\<close>

definition TX_CURRENT :: "real \<rightharpoonup> real" where
  "TX_CURRENT = map_of [(2, 13), (5, 17), (8, 22), (11, 26), (14, 31), (17, 87), (20, 120)]"

text \<open>
  An entry of \<^verbatim>\<open>EU_BANDS\<close>.  The field \<^verbatim>\<open>id\<close> is \<open>id'\<close> here (\<open>id\<close> is HOL's identity
  function) and \<^verbatim>\<open>label\<close> is \<open>label_b\<close> (a warning has a label too); the dash of the
  labels is written in ASCII.
\<close>

record eu_band =
  id' :: string
  label_b :: string
  duty :: real

definition EU_BANDS :: "eu_band list" where
  "EU_BANDS =
     [\<lparr>id' = ''g'',  label_b = ''g  868.0-868.6 MHz'',  duty = 1\<rparr>,
      \<lparr>id' = ''g1'', label_b = ''g1 863.0-868.0 MHz'',  duty = 1\<rparr>,
      \<lparr>id' = ''g2'', label_b = ''g2 868.7-869.2 MHz'',  duty = 0.1\<rparr>,
      \<lparr>id' = ''g3'', label_b = ''g3 869.4-869.65 MHz'', duty = 10\<rparr>]"

subsection \<open>The state of the component\<close>

text \<open>
  One field for each \<^verbatim>\<open>useState\<close> variable that a calculation reads (\<^verbatim>\<open>preset\<close> and
  \<^verbatim>\<open>showCadNotes\<close> only steer the display).
\<close>

record state =
  region :: string
  sf :: int
  bw :: real
  payload :: real
  cr :: real
  preamble :: real
  crc :: bool
  explicitHeader :: bool
  txPower :: real
  voltage :: real
  txIntervalMin :: real
  euBand :: string
  battCapacity :: real
  ldrManual :: bool

subsection \<open>Numbers that need not be finite\<close>

text \<open>
  A JavaScript number is finite, \<^verbatim>\<open>Infinity\<close>, \<^verbatim>\<open>-Infinity\<close> or \<^verbatim>\<open>NaN\<close>.  The operators
  \<^verbatim>\<open>*\<close>, \<^verbatim>\<open>/\<close>, \<^verbatim>\<open><\<close> and \<^verbatim>\<open><=\<close> follow IEEE 754 on these values, without rounding and
  with a single zero: a positive number divided by zero is \<^verbatim>\<open>Infinity\<close>, zero times
  \<^verbatim>\<open>Infinity\<close> and zero divided by zero are \<^verbatim>\<open>NaN\<close>, and every comparison with \<^verbatim>\<open>NaN\<close>
  is false.
\<close>

datatype num = Finite real | Infinity | NegInfinity | NaN

definition signed_infinity :: "real \<Rightarrow> num" where
  "signed_infinity s = (if s > 0 then Infinity else if s < 0 then NegInfinity else NaN)"

fun times_js :: "num \<Rightarrow> num \<Rightarrow> num" where
  "times_js (Finite a) (Finite b) = Finite (a * b)"
| "times_js (Finite a) Infinity = signed_infinity a"
| "times_js (Finite a) NegInfinity = signed_infinity (- a)"
| "times_js Infinity (Finite b) = signed_infinity b"
| "times_js NegInfinity (Finite b) = signed_infinity (- b)"
| "times_js Infinity Infinity = Infinity"
| "times_js Infinity NegInfinity = NegInfinity"
| "times_js NegInfinity Infinity = NegInfinity"
| "times_js NegInfinity NegInfinity = Infinity"
| "times_js NaN y = NaN"
| "times_js x NaN = NaN"

fun divide_js :: "num \<Rightarrow> num \<Rightarrow> num" where
  "divide_js (Finite a) (Finite b) = (if b = 0 then signed_infinity a else Finite (a / b))"
| "divide_js (Finite a) Infinity = Finite 0"
| "divide_js (Finite a) NegInfinity = Finite 0"
| "divide_js Infinity (Finite b) = (if b < 0 then NegInfinity else Infinity)"
| "divide_js NegInfinity (Finite b) = (if b < 0 then Infinity else NegInfinity)"
| "divide_js Infinity Infinity = NaN"
| "divide_js Infinity NegInfinity = NaN"
| "divide_js NegInfinity Infinity = NaN"
| "divide_js NegInfinity NegInfinity = NaN"
| "divide_js NaN y = NaN"
| "divide_js x NaN = NaN"

fun less_js :: "num \<Rightarrow> num \<Rightarrow> bool" where
  "less_js (Finite a) (Finite b) = (a < b)"
| "less_js (Finite a) Infinity = True"
| "less_js NegInfinity (Finite b) = True"
| "less_js NegInfinity Infinity = True"
| "less_js x y = False"

fun less_eq_js :: "num \<Rightarrow> num \<Rightarrow> bool" where
  "less_eq_js (Finite a) (Finite b) = (a \<le> b)"
| "less_eq_js (Finite a) Infinity = True"
| "less_eq_js NegInfinity (Finite b) = True"
| "less_eq_js NegInfinity Infinity = True"
| "less_eq_js Infinity Infinity = True"
| "less_eq_js NegInfinity NegInfinity = True"
| "less_eq_js x y = False"

subsection \<open>Derived quantities, in the order of the source\<close>

definition tSym_ms :: "state \<Rightarrow> real" where
  "tSym_ms p = 2 powi sf p / bw p"

definition ldrRequired :: "state \<Rightarrow> bool" where
  "ldrRequired p = (tSym_ms p > 16)"

definition ldrOptimize :: "state \<Rightarrow> bool" where
  "ldrOptimize p = (ldrRequired p \<or> ldrManual p)"

definition airtime :: "state \<Rightarrow> real" where
  "airtime p = calcAirtime (sf p) (bw p * 1000) (preamble p) (payload p) (cr p) (crc p)
                 (explicitHeader p) (ldrOptimize p)"

text \<open>\<^verbatim>\<open>TX_CURRENT[txPower] ?? 31\<close>: a missing key reads as \<^verbatim>\<open>undefined\<close>.\<close>

definition current_mA :: "state \<Rightarrow> real" where
  "current_mA p = (case TX_CURRENT (txPower p) of Some c \<Rightarrow> c | None \<Rightarrow> 31)"

definition energy_mJ :: "state \<Rightarrow> real" where
  "energy_mJ p = (current_mA p / 1000) * voltage p * (airtime p / 1000) * 1000"

definition energy_uAh :: "state \<Rightarrow> real" where
  "energy_uAh p = (current_mA p * (airtime p / 1000)) / 3.6"

text \<open>\<^verbatim>\<open>EU_BANDS.find(b => b.id === euBand)\<close> and \<^verbatim>\<open>euBandObj?.duty ?? 1\<close>.\<close>

definition euBandObj :: "state \<Rightarrow> eu_band option" where
  "euBandObj p = find (\<lambda>b. id' b = euBand p) EU_BANDS"

definition duty_limit :: "state \<Rightarrow> real" where
  "duty_limit p = (case euBandObj p of Some b \<Rightarrow> duty b | None \<Rightarrow> 1)"

definition duty_used_per_tx :: "state \<Rightarrow> real" where
  "duty_used_per_tx p = (airtime p / 3600000) * 100"

text \<open>
  \<^verbatim>\<open>txIntervalMin > 0 ? 60 / txIntervalMin : 0\<close>: the quotient is the source's, which is
  \<^verbatim>\<open>Infinity\<close> at a zero interval; only the guard keeps it from being taken there.
\<close>

definition tx_per_hour :: "state \<Rightarrow> num" where
  "tx_per_hour p = (if txIntervalMin p > 0 then divide_js (Finite 60) (Finite (txIntervalMin p))
                    else Finite 0)"

definition duty_used_per_hour :: "state \<Rightarrow> num" where
  "duty_used_per_hour p = times_js (Finite (duty_used_per_tx p)) (tx_per_hour p)"

definition duty_pct_of_limit :: "state \<Rightarrow> num" where
  "duty_pct_of_limit p =
     times_js (divide_js (duty_used_per_hour p) (Finite (duty_limit p))) (Finite 100)"

text \<open>
  \<^verbatim>\<open>Math.floor((duty_limit / 100 * 3_600_000) / airtime)\<close>.  The source floors a quotient of
  doubles, and a floor does not absorb rounding: where the exact quotient is a whole
  number, the double may lie just below it and the floor is one less.  The double quotient
  is the exact one times \<open>1 + e\<close> for a relative rounding error \<open>e\<close>, which is the first
  parameter; \<open>e = 0\<close> is exact arithmetic.
\<close>

definition max_tx_per_hour :: "real \<Rightarrow> state \<Rightarrow> real" where
  "max_tx_per_hour e p = of_int \<lfloor>(duty_limit p / 100 * 3600000) / airtime p * (1 + e)\<rfloor>"

definition min_interval_s :: "state \<Rightarrow> real" where
  "min_interval_s p = airtime p / (duty_limit p / 100) / 1000"

definition rearm_g_s :: "state \<Rightarrow> real" where
  "rearm_g_s p = airtime p / 0.01 / 1000"

definition rearm_g3_s :: "state \<Rightarrow> real" where
  "rearm_g3_s p = airtime p / 0.10 / 1000"

definition us_dwell_ok :: "state \<Rightarrow> bool" where
  "us_dwell_ok p = (airtime p \<le> 400)"

definition tx_energy_per_day_mAh :: "state \<Rightarrow> num" where
  "tx_energy_per_day_mAh p =
     times_js (times_js (Finite (energy_uAh p / 1000)) (tx_per_hour p)) (Finite 24)"

text \<open>
  \<^verbatim>\<open>tx_energy_per_day_mAh > 0 ? battCapacity / tx_energy_per_day_mAh : Infinity\<close>.
\<close>

definition batt_days :: "state \<Rightarrow> num" where
  "batt_days p = (if less_js (Finite 0) (tx_energy_per_day_mAh p)
                  then divide_js (Finite (battCapacity p)) (tx_energy_per_day_mAh p)
                  else Infinity)"

definition euCompliant :: "state \<Rightarrow> bool" where
  "euCompliant p = less_eq_js (duty_used_per_hour p) (Finite (duty_limit p))"

definition compliant :: "state \<Rightarrow> bool" where
  "compliant p = (if region p = ''eu'' then euCompliant p else us_dwell_ok p)"

subsection \<open>Configuration warnings\<close>

text \<open>
  A warning is \<^verbatim>\<open>{ level, label, message }\<close>.  The message is display text (three of
  the eight interpolate a number) and is left out; the label identifies the rule.
  Every \<^verbatim>\<open>if (c) warnings.push(w)\<close> appends \<open>[w]\<close> or nothing, in the order of the source.
\<close>

record warning =
  level :: string
  label :: string

definition push_if :: "bool \<Rightarrow> string \<Rightarrow> string \<Rightarrow> warning list" where
  "push_if c lev lab = (if c then [\<lparr>level = lev, label = lab\<rparr>] else [])"

definition warnings :: "state \<Rightarrow> warning list" where
  "warnings p =
     push_if (region p = ''eu'' \<and> bw p = 500 \<and> euBand p = ''g3'') ''error'' ''BW + Sub-band''
   @ push_if (region p = ''eu'' \<and> bw p = 250 \<and> euBand p = ''g3'') ''caution'' ''BW250 + g3''
   @ push_if (region p = ''eu'' \<and> txPower p > 14) ''error'' ''TX Power (EU)''
   @ push_if (txPower p = 20) ''caution'' ''+20 dBm duty limit''
   @ push_if (region p = ''us'' \<and> \<not> us_dwell_ok p) ''error'' ''US Dwell Time''
   @ push_if (region p = ''eu'' \<and> euBand p = ''g2'') ''caution'' ''g2 sub-band''
   @ push_if (preamble p < 8) ''caution'' ''Preamble symbols''
   @ push_if (sf p = 6 \<and> explicitHeader p) ''error'' ''SF6 + Explicit Header''"

definition hasErrors :: "state \<Rightarrow> bool" where
  "hasErrors p = list_ex (\<lambda>w. level w = ''error'') (warnings p)"

definition hasCautions :: "state \<Rightarrow> bool" where
  "hasCautions p = list_ex (\<lambda>w. level w = ''caution'') (warnings p)"

subsection \<open>Where the model follows the source\<close>

text \<open>
  The two quotients of \<^verbatim>\<open>calcAirtime\<close> have the divisors \<^verbatim>\<open>bw\<close> and
  \<^verbatim>\<open>4 * (sf - 2 * DE)\<close>.  When neither is zero the source's airtime is a finite number,
  and so is every quantity derived from it whose own divisor is not zero.
\<close>

definition divisors_nonzero :: "state \<Rightarrow> bool" where
  "divisors_nonzero p \<longleftrightarrow> bw p \<noteq> 0 \<and> of_int (sf p) \<noteq> 2 * DE (ldrOptimize p)"

text \<open>The documented domain of the RF parameters (spec, section 3).\<close>

definition is_integer :: "real \<Rightarrow> bool" where
  "is_integer x \<longleftrightarrow> of_int \<lfloor>x\<rfloor> = x"

definition in_domain :: "state \<Rightarrow> bool" where
  "in_domain p \<longleftrightarrow>
     6 \<le> sf p \<and> sf p \<le> 12 \<and>
     (bw p = 125 \<or> bw p = 250 \<or> bw p = 500) \<and>
     is_integer (cr p) \<and> 1 \<le> cr p \<and> cr p \<le> 4 \<and>
     is_integer (payload p) \<and> 1 \<le> payload p \<and> payload p \<le> 255 \<and>
     is_integer (preamble p) \<and> 6 \<le> preamble p"

subsection \<open>The airtime formula in the words of the specification\<close>

text \<open>
  Section 4.1 of the specification: the bandwidth in Hz is the bandwidth in kHz times 1000;
  low-data-rate optimisation is required when the symbol lasts more than 16 ms and is then
  forced on, otherwise the manual setting counts; the header is implicit when the spreading
  factor is 6 or no explicit header is requested.
\<close>

definition spec_bandwidthHz :: "state \<Rightarrow> real" where
  "spec_bandwidthHz p = bw p * 1000"

definition spec_ldro_required :: "state \<Rightarrow> bool" where
  "spec_ldro_required p \<longleftrightarrow> 2 powi sf p / spec_bandwidthHz p * 1000 > 16"

definition spec_effective_ldro :: "state \<Rightarrow> bool" where
  "spec_effective_ldro p = (if spec_ldro_required p then True else ldrManual p)"

definition spec_implicit_header :: "state \<Rightarrow> bool" where
  "spec_implicit_header p \<longleftrightarrow> sf p = 6 \<or> \<not> explicitHeader p"

definition spec_t_sym :: "state \<Rightarrow> real" where
  "spec_t_sym p = 2 powi sf p / spec_bandwidthHz p * 1000"

definition spec_t_preamble :: "state \<Rightarrow> real" where
  "spec_t_preamble p = (preamble p + 4.25) * spec_t_sym p"

definition spec_payloadBits :: "state \<Rightarrow> real" where
  "spec_payloadBits p =
     8 * payload p - 4 * of_int (sf p) + 28
       + 16 * (if crc p then 1 else 0) - 20 * (if spec_implicit_header p then 1 else 0)"

definition spec_numerator :: "state \<Rightarrow> real" where
  "spec_numerator p =
     of_int \<lceil>spec_payloadBits p
              / (4 * (of_int (sf p) - 2 * (if spec_effective_ldro p then 1 else 0)))\<rceil>
       * (cr p + 4)"

definition spec_t_payload :: "state \<Rightarrow> real" where
  "spec_t_payload p = (8 + max (spec_numerator p) 0) * spec_t_sym p"

definition spec_airtime :: "state \<Rightarrow> real" where
  "spec_airtime p = spec_t_preamble p + spec_t_payload p"

subsection \<open>The rule table of the specification\<close>

text \<open>
  Section 4.4 of the specification: eight rules, each a condition and a level, in the order
  of the table.  A row carries the label under which the source reports that rule (its
  comments number the warnings W1 to W8 in the same way); the levels Error and Caution are
  the source's strings \<^verbatim>\<open>"error"\<close> and \<^verbatim>\<open>"caution"\<close>.
\<close>

definition spec_rules :: "(string \<times> (state \<Rightarrow> bool) \<times> string) list" where
  "spec_rules =
     [(''BW + Sub-band'',
         \<lambda>p. region p = ''eu'' \<and> bw p = 500 \<and> euBand p = ''g3'', ''error''),
      (''BW250 + g3'',
         \<lambda>p. region p = ''eu'' \<and> bw p = 250 \<and> euBand p = ''g3'', ''caution''),
      (''TX Power (EU)'',
         \<lambda>p. region p = ''eu'' \<and> txPower p > 14, ''error''),
      (''+20 dBm duty limit'',
         \<lambda>p. txPower p = 20, ''caution''),
      (''US Dwell Time'',
         \<lambda>p. region p = ''us'' \<and> airtime p > 400, ''error''),
      (''g2 sub-band'',
         \<lambda>p. region p = ''eu'' \<and> euBand p = ''g2'', ''caution''),
      (''Preamble symbols'',
         \<lambda>p. preamble p < 8, ''caution''),
      (''SF6 + Explicit Header'',
         \<lambda>p. sf p = 6 \<and> explicitHeader p, ''error'')]"

definition spec_warnings :: "state \<Rightarrow> warning list" where
  "spec_warnings p =
     map (\<lambda>(lab, c, lev). \<lparr>level = lev, label = lab\<rparr>)
         (filter (\<lambda>(lab, c, lev). c p) spec_rules)"

subsection \<open>Concrete states\<close>

text \<open>
  Scenario A of the specification.  Its values are the initial values of the component's
  \<^verbatim>\<open>useState\<close> calls, from which the supply voltage, the battery capacity and the manual
  LDRO setting are taken.
\<close>

definition scenario_A :: state where
  "scenario_A = \<lparr>region = ''eu'', sf = 12, bw = 125, payload = 12, cr = 2, preamble = 8,
     crc = True, explicitHeader = True, txPower = 14, voltage = 3.7, txIntervalMin = 15,
     euBand = ''g'', battCapacity = 2000, ldrManual = False\<rparr>"

text \<open>The longest packet the selects offer, on the 0.1 percent sub-band.\<close>

definition longest_g2 :: state where
  "longest_g2 = \<lparr>region = ''eu'', sf = 12, bw = 125, payload = 255, cr = 4, preamble = 8,
     crc = True, explicitHeader = True, txPower = 14, voltage = 3.7, txIntervalMin = 15,
     euBand = ''g2'', battCapacity = 2000, ldrManual = False\<rparr>"

text \<open>A 500 kHz channel on sub-band g3 at spreading factor 6 with an explicit header.\<close>

definition sf6_bw500_g3 :: state where
  "sf6_bw500_g3 = \<lparr>region = ''eu'', sf = 6, bw = 500, payload = 12, cr = 2, preamble = 8,
     crc = True, explicitHeader = True, txPower = 14, voltage = 3.7, txIntervalMin = 15,
     euBand = ''g3'', battCapacity = 2000, ldrManual = False\<rparr>"

text \<open>Transmit power 20 dBm left selected after the region was switched to EU.\<close>

definition eu_20dBm :: state where
  "eu_20dBm = \<lparr>region = ''eu'', sf = 12, bw = 125, payload = 12, cr = 2, preamble = 8,
     crc = True, explicitHeader = True, txPower = 20, voltage = 3.7, txIntervalMin = 15,
     euBand = ''g'', battCapacity = 2000, ldrManual = False\<rparr>"

text \<open>
  Spreading factor 7 with coding-rate offset 3 and 16 preamble symbols on sub-band g3:
  the airtime is 57.6 ms and the exact quotient of \<open>max_tx_per_hour\<close> is the whole
  number 6250.
\<close>

definition sf7_g3 :: state where
  "sf7_g3 = \<lparr>region = ''eu'', sf = 7, bw = 125, payload = 12, cr = 3, preamble = 16,
     crc = True, explicitHeader = True, txPower = 14, voltage = 3.7, txIntervalMin = 15,
     euBand = ''g3'', battCapacity = 2000, ldrManual = False\<rparr>"

text \<open>Scenario A with no scheduled transmission.\<close>

definition unscheduled :: state where
  "unscheduled = scenario_A\<lparr>txIntervalMin := 0\<rparr>"

section \<open>Shared lemmas\<close>

lemmas flag_defs = DE_def IH_def CRC_def

lemmas airtime_defs = airtime_def calcAirtime_def ldrOptimize_def ldrRequired_def tSym_ms_def

subsection \<open>The source and the specification compute the same airtime\<close>

lemma ldro_agree: "spec_effective_ldro p = ldrOptimize p"
  by (simp add: spec_effective_ldro_def spec_ldro_required_def spec_bandwidthHz_def
      ldrOptimize_def ldrRequired_def tSym_ms_def)

lemma t_sym_agree: "spec_t_sym p = (2 powi sf p / (bw p * 1000)) * 1000"
  by (simp add: spec_t_sym_def spec_bandwidthHz_def)

lemma airtime_spec_airtime: "airtime p = spec_t_preamble p + spec_t_payload p"
  unfolding airtime_def calcAirtime_def spec_t_preamble_def spec_t_payload_def
    spec_numerator_def spec_payloadBits_def spec_implicit_header_def ldro_agree t_sym_agree
    Let_def flag_defs
  by simp

lemma in_domain_divisors: "in_domain p \<Longrightarrow> divisors_nonzero p"
  by (auto simp: in_domain_def divisors_nonzero_def DE_def)

subsection \<open>Values at the concrete states\<close>

lemma airtime_scenario_A: "airtime scenario_A = 1253.376"
  by (simp add: airtime_defs flag_defs scenario_A_def Let_def)

lemma ldrOptimize_scenario_A: "ldrOptimize scenario_A"
  by (simp add: ldrOptimize_def ldrRequired_def tSym_ms_def scenario_A_def)

lemma duty_scenario_A: "duty_used_per_hour scenario_A = Finite 0.139264"
  by (simp add: duty_used_per_hour_def duty_used_per_tx_def tx_per_hour_def airtime_scenario_A)
     (simp add: scenario_A_def)

lemma duty_limit_scenario_A: "duty_limit scenario_A = 1"
  by (simp add: duty_limit_def euBandObj_def EU_BANDS_def scenario_A_def)

lemma warnings_scenario_A: "warnings scenario_A = []"
  by (simp add: warnings_def push_if_def scenario_A_def)

lemma divisors_scenario_A: "divisors_nonzero scenario_A"
  by (simp add: divisors_nonzero_def scenario_A_def DE_def)

lemma airtime_longest_g2: "airtime longest_g2 = 14032.896"
  by (simp add: airtime_defs flag_defs longest_g2_def Let_def)

lemma duty_limit_longest_g2: "duty_limit longest_g2 = 0.1"
  by (simp add: duty_limit_def euBandObj_def EU_BANDS_def longest_g2_def)

lemma divisors_eu_20dBm: "divisors_nonzero eu_20dBm"
  by (simp add: divisors_nonzero_def eu_20dBm_def DE_def)

lemma airtime_sf7_g3: "airtime sf7_g3 = 57.6"
  by (simp add: airtime_defs flag_defs sf7_g3_def Let_def)

lemma duty_limit_sf7_g3: "duty_limit sf7_g3 = 10"
  by (simp add: duty_limit_def euBandObj_def EU_BANDS_def sf7_g3_def)

lemma divisors_sf7_g3: "divisors_nonzero sf7_g3"
  by (simp add: divisors_nonzero_def sf7_g3_def DE_def ldrOptimize_def ldrRequired_def
      tSym_ms_def)

text \<open>
  At this state exact arithmetic floors 6250 to 6250; a quotient rounded just below it is
  floored to 6249.
\<close>

lemma max_tx_sf7_g3:
  "max_tx_per_hour 0 sf7_g3 = 6250 \<and> max_tx_per_hour (- (1 / 2 ^ 50)) sf7_g3 = 6249"
  by (simp add: max_tx_per_hour_def airtime_sf7_g3 duty_limit_sf7_g3)

subsection \<open>The duty limit and the transmissions per hour\<close>

lemma duty_limit_cases: "duty_limit p = 1 \<or> duty_limit p = 0.1 \<or> duty_limit p = 10"
  by (simp add: duty_limit_def euBandObj_def EU_BANDS_def)

lemma duty_limit_pos: "0 < duty_limit p"
  using duty_limit_cases [of p] by auto

subsection \<open>When each rule fires\<close>

lemma warnings_spec_warnings: "warnings p = spec_warnings p"
  by (simp add: warnings_def spec_warnings_def spec_rules_def push_if_def us_dwell_ok_def not_le)

lemma rule1_fires:
  "\<lparr>level = ''error'', label = ''BW + Sub-band''\<rparr> \<in> set (warnings p)
     \<longleftrightarrow> region p = ''eu'' \<and> bw p = 500 \<and> euBand p = ''g3''"
  by (simp add: warnings_def push_if_def)

lemma rule3_fires:
  "\<lparr>level = ''error'', label = ''TX Power (EU)''\<rparr> \<in> set (warnings p)
     \<longleftrightarrow> region p = ''eu'' \<and> txPower p > 14"
  by (simp add: warnings_def push_if_def)

lemma rule4_fires:
  "\<lparr>level = ''caution'', label = ''+20 dBm duty limit''\<rparr> \<in> set (warnings p)
     \<longleftrightarrow> txPower p = 20"
  by (simp add: warnings_def push_if_def)

lemma rule8_fires:
  "\<lparr>level = ''error'', label = ''SF6 + Explicit Header''\<rparr> \<in> set (warnings p)
     \<longleftrightarrow> sf p = 6 \<and> explicitHeader p"
  by (simp add: warnings_def push_if_def)

subsection \<open>A floor times the reciprocal\<close>

lemma floor_times_window:
  fixes x e d :: real
  assumes "0 < x" and "\<bar>e\<bar> \<le> d"
  shows "3600 * (1 - d) - 3600 / x < of_int \<lfloor>x * (1 + e)\<rfloor> * (3600 / x) \<and>
         of_int \<lfloor>x * (1 + e)\<rfloor> * (3600 / x) \<le> 3600 * (1 + d)"
proof -
  let ?q = "x * (1 + e)"
  have lo: "?q - 1 < of_int \<lfloor>?q\<rfloor>" and hi: "of_int \<lfloor>?q\<rfloor> \<le> ?q"
    by linarith+
  have pos: "0 < 3600 / x" using assms(1) by simp
  have qm: "?q * (3600 / x) = 3600 * (1 + e)"
    using assms(1) by simp
  have "(?q - 1) * (3600 / x) < of_int \<lfloor>?q\<rfloor> * (3600 / x)"
    using lo pos by (rule mult_strict_right_mono)
  moreover have "(?q - 1) * (3600 / x) = ?q * (3600 / x) - 3600 / x"
    by (simp only: left_diff_distrib mult_1)
  moreover have "3600 * (1 - d) \<le> 3600 * (1 + e)"
    using assms(2) by simp
  moreover have "of_int \<lfloor>?q\<rfloor> * (3600 / x) \<le> ?q * (3600 / x)"
    using hi pos by (intro mult_right_mono) simp_all
  moreover have "3600 * (1 + e) \<le> 3600 * (1 + d)"
    using assms(2) by simp
  ultimately show ?thesis using qm by linarith
qed

section \<open>The airtime formula\<close>

text \<open>
  Claim C1.  On the documented domain (spreading factor 6 to 12, bandwidth 125, 250 or 500
  kHz, coding-rate offset 1 to 4, payload 1 to 255 bytes, at least 6 preamble symbols, all
  whole numbers) the airtime that the component obtains from \<^verbatim>\<open>calcAirtime\<close> is the sum of
  the preamble time and the payload time of the specification's formula, with the flags
  DE, IH and CRC resolved by the specification's rules.  No divisor of the computation is
  zero there, so the source's value is a finite number.
\<close>

theorem airtime_matches_spec_formula:
  assumes "in_domain p"
  shows "divisors_nonzero p \<and> airtime p = spec_t_preamble p + spec_t_payload p"
  using assms by (simp add: in_domain_divisors airtime_spec_airtime)

theorem airtime_matches_spec_formula_witness:
  "in_domain scenario_A \<and> divisors_nonzero scenario_A \<and>
   airtime scenario_A = spec_t_preamble scenario_A + spec_t_payload scenario_A"
proof -
  have d: "in_domain scenario_A"
    by (simp add: in_domain_def is_integer_def scenario_A_def)
  from d airtime_matches_spec_formula [OF d] show ?thesis by simp
qed

section \<open>The configuration warnings\<close>

text \<open>
  Claim C2.  The warnings are exactly the rows of the specification's rule table whose
  condition holds, each with the level of its row, in the order of the table; in
  particular, at 20 dBm in region EU both rule 3 and rule 4 are reported.
\<close>

theorem warnings_follow_rule_table:
  assumes "divisors_nonzero p"
  shows "warnings p = spec_warnings p \<and>
         (region p = ''eu'' \<and> txPower p = 20 \<longrightarrow>
           \<lparr>level = ''error'', label = ''TX Power (EU)''\<rparr> \<in> set (warnings p) \<and>
           \<lparr>level = ''caution'', label = ''+20 dBm duty limit''\<rparr> \<in> set (warnings p))"
proof
  show "warnings p = spec_warnings p"
    by (rule warnings_spec_warnings)
  show "region p = ''eu'' \<and> txPower p = 20 \<longrightarrow>
           \<lparr>level = ''error'', label = ''TX Power (EU)''\<rparr> \<in> set (warnings p) \<and>
           \<lparr>level = ''caution'', label = ''+20 dBm duty limit''\<rparr> \<in> set (warnings p)"
    by (simp add: rule3_fires rule4_fires)
qed

theorem warnings_follow_rule_table_witness:
  "divisors_nonzero eu_20dBm \<and> warnings eu_20dBm = spec_warnings eu_20dBm \<and>
   warnings eu_20dBm = [\<lparr>level = ''error'', label = ''TX Power (EU)''\<rparr>,
                        \<lparr>level = ''caution'', label = ''+20 dBm duty limit''\<rparr>]"
proof -
  have w: "warnings eu_20dBm = [\<lparr>level = ''error'', label = ''TX Power (EU)''\<rparr>,
                                \<lparr>level = ''caution'', label = ''+20 dBm duty limit''\<rparr>]"
    by (simp add: warnings_def push_if_def eu_20dBm_def us_dwell_ok_def)
  from warnings_follow_rule_table [OF divisors_eu_20dBm] divisors_eu_20dBm w
  show ?thesis by simp
qed

section \<open>Scenario A\<close>

text \<open>
  Claim C3, as the specification states it, fails: at the input of scenario A the airtime
  is not within 0.5 ms of 452.6 ms, and the duty used per hour is more than twice 0.0503
  percent.
\<close>

theorem scenario_A_airtime_not_452:
  "\<not> \<bar>airtime scenario_A - 452.6\<bar> \<le> 0.5 \<and>
   less_js (Finite (2 * 0.0503)) (duty_used_per_hour scenario_A)"
  by (simp add: airtime_scenario_A duty_scenario_A)

text \<open>
  Claim C3, amended.  At the input of scenario A (SF 12, 125 kHz, coding-rate offset 2,
  12 bytes, 8 preamble symbols, CRC on, explicit header, EU, sub-band g, 14 dBm, one
  transmission every 15 minutes) the airtime is 1253.376 ms, the effective LDRO flag is
  true, the duty used per hour is 0.139264 percent, the result is compliant and no warning
  of level error is reported.
\<close>

theorem scenario_A_results:
  "airtime scenario_A = 1253.376 \<and> ldrOptimize scenario_A \<and>
   duty_used_per_hour scenario_A = Finite 0.139264 \<and> compliant scenario_A \<and>
   \<not> hasErrors scenario_A"
  by (simp add: airtime_scenario_A ldrOptimize_scenario_A duty_scenario_A compliant_def
      euCompliant_def duty_limit_scenario_A hasErrors_def warnings_scenario_A)
     (simp add: scenario_A_def)

section \<open>Spreading factor 6\<close>

text \<open>
  Claim C4.  At spreading factor 6 the header flag IH of the airtime computation is 1
  whatever the explicit-header setting is: the airtime is the value of the formula with
  the term \<open>- 20 * 1\<close> in the payload bits, and it does not depend on the setting.  When
  an explicit header is requested, rule 8 is reported with level error.
\<close>

theorem sf6_forces_implicit_header:
  assumes "sf p = 6"
  shows "IH (sf p) (explicitHeader p) = 1 \<and>
         airtime p =
           (preamble p + 4.25) * ((2 powi 6 / (bw p * 1000)) * 1000)
           + (8 + max (of_int \<lceil>(8 * payload p - 4 * 6 + 28 + 16 * CRC (crc p) - 20 * 1)
                                   / (4 * (6 - 2 * DE (ldrOptimize p)))\<rceil> * (cr p + 4)) 0)
             * ((2 powi 6 / (bw p * 1000)) * 1000) \<and>
         airtime (p\<lparr>explicitHeader := e\<rparr>) = airtime p \<and>
         (explicitHeader p \<longrightarrow>
           \<lparr>level = ''error'', label = ''SF6 + Explicit Header''\<rparr> \<in> set (warnings p))"
proof -
  have i: "IH (sf p) (explicitHeader p) = 1"
    using assms by (simp add: IH_def)
  have a: "airtime p =
           (preamble p + 4.25) * ((2 powi 6 / (bw p * 1000)) * 1000)
           + (8 + max (of_int \<lceil>(8 * payload p - 4 * 6 + 28 + 16 * CRC (crc p) - 20 * 1)
                                   / (4 * (6 - 2 * DE (ldrOptimize p)))\<rceil> * (cr p + 4)) 0)
             * ((2 powi 6 / (bw p * 1000)) * 1000)"
    using assms by (simp add: airtime_def calcAirtime_def Let_def IH_def)
  have v: "airtime (p\<lparr>explicitHeader := e\<rparr>) = airtime p"
    using assms by (simp add: airtime_defs IH_def)
  have w: "explicitHeader p \<longrightarrow>
           \<lparr>level = ''error'', label = ''SF6 + Explicit Header''\<rparr> \<in> set (warnings p)"
    using assms by (simp add: rule8_fires)
  from i a v w show ?thesis by blast
qed

theorem sf6_forces_implicit_header_witness:
  "sf sf6_bw500_g3 = 6 \<and> IH (sf sf6_bw500_g3) (explicitHeader sf6_bw500_g3) = 1 \<and>
   airtime sf6_bw500_g3 = 5.664 \<and>
   airtime (sf6_bw500_g3\<lparr>explicitHeader := False\<rparr>) = 5.664 \<and>
   \<lparr>level = ''error'', label = ''SF6 + Explicit Header''\<rparr> \<in> set (warnings sf6_bw500_g3)"
proof -
  have h: "sf sf6_bw500_g3 = 6" by (simp add: sf6_bw500_g3_def)
  have e: "explicitHeader sf6_bw500_g3" by (simp add: sf6_bw500_g3_def)
  have l: "\<not> ldrOptimize sf6_bw500_g3"
    by (simp add: ldrOptimize_def ldrRequired_def tSym_ms_def sf6_bw500_g3_def)
  have f: "bw sf6_bw500_g3 = 500" "preamble sf6_bw500_g3 = 8" "payload sf6_bw500_g3 = 12"
    "cr sf6_bw500_g3 = 2" "crc sf6_bw500_g3"
    by (simp_all add: sf6_bw500_g3_def)
  from sf6_forces_implicit_header [OF h, of False] h e l f show ?thesis
    by (simp add: DE_def CRC_def)
qed

section \<open>Low-data-rate optimisation\<close>

text \<open>
  Claim C5.  When the symbol lasts more than 16 ms (\<open>2^SF / BW_Hz * 1000 > 16\<close>) the
  low-data-rate flag handed to \<^verbatim>\<open>calcAirtime\<close> is true, whatever the manual setting is;
  otherwise it is the manual setting.
\<close>

theorem effective_ldro_resolution:
  "(2 powi sf p / (bw p * 1000) * 1000 > 16 \<longrightarrow> ldrOptimize p) \<and>
   (\<not> 2 powi sf p / (bw p * 1000) * 1000 > 16 \<longrightarrow> ldrOptimize p = ldrManual p) \<and>
   airtime p = calcAirtime (sf p) (bw p * 1000) (preamble p) (payload p) (cr p) (crc p)
                 (explicitHeader p) (ldrOptimize p)"
  by (simp add: ldrOptimize_def ldrRequired_def tSym_ms_def airtime_def)

theorem effective_ldro_resolution_witness:
  "ldrOptimize scenario_A \<and> \<not> ldrManual scenario_A \<and>
   \<not> ldrOptimize sf6_bw500_g3 \<and> \<not> ldrManual sf6_bw500_g3"
proof -
  have a: "2 powi sf scenario_A / (bw scenario_A * 1000) * 1000 > 16"
    by (simp add: scenario_A_def)
  have b: "\<not> 2 powi sf sf6_bw500_g3 / (bw sf6_bw500_g3 * 1000) * 1000 > 16"
    by (simp add: sf6_bw500_g3_def)
  have m: "\<not> ldrManual scenario_A" "\<not> ldrManual sf6_bw500_g3"
    by (simp_all add: scenario_A_def sf6_bw500_g3_def)
  from effective_ldro_resolution [of scenario_A] effective_ldro_resolution [of sf6_bw500_g3]
    a b m
  show ?thesis by simp
qed

section \<open>Rules 1 and 8\<close>

text \<open>
  Claim C6, as the specification states it, fails: a 500 kHz channel on EU sub-band g3 at
  spreading factor 6 with an explicit header requested gets both rule 1 and rule 8 in the
  same list of warnings.
\<close>

theorem rule1_rule8_fire_together:
  "\<lparr>level = ''error'', label = ''BW + Sub-band''\<rparr> \<in> set (warnings sf6_bw500_g3) \<and>
   \<lparr>level = ''error'', label = ''SF6 + Explicit Header''\<rparr> \<in> set (warnings sf6_bw500_g3)"
  by (simp add: warnings_def push_if_def sf6_bw500_g3_def)

text \<open>
  Claim C6, amended.  Rule 1 and rule 8 read different parameters and fire independently
  of each other: rule 1 exactly when region is EU, bandwidth is 500 kHz and the sub-band is
  g3, rule 8 exactly when the spreading factor is 6 and an explicit header is requested.
  Both fire in the same call exactly when all five conditions hold.
\<close>

theorem rule1_rule8_independent:
  "(\<lparr>level = ''error'', label = ''BW + Sub-band''\<rparr> \<in> set (warnings p)
      \<longleftrightarrow> region p = ''eu'' \<and> bw p = 500 \<and> euBand p = ''g3'') \<and>
   (\<lparr>level = ''error'', label = ''SF6 + Explicit Header''\<rparr> \<in> set (warnings p)
      \<longleftrightarrow> sf p = 6 \<and> explicitHeader p) \<and>
   (\<lparr>level = ''error'', label = ''BW + Sub-band''\<rparr> \<in> set (warnings p) \<and>
    \<lparr>level = ''error'', label = ''SF6 + Explicit Header''\<rparr> \<in> set (warnings p)
      \<longleftrightarrow> region p = ''eu'' \<and> bw p = 500 \<and> euBand p = ''g3'' \<and> sf p = 6 \<and> explicitHeader p)"
  by (simp add: rule1_fires rule8_fires)

section \<open>The duty-cycle budget\<close>

text \<open>
  Claim C7, as the specification states it, fails: for the longest packet on sub-band g2
  (EU, airtime 14032.896 ms, duty limit 0.1 percent) no transmission fits into the hour,
  so the product of the maximal number of transmissions per hour and the minimal interval
  is 0 seconds, not about 3600; a rounding error of the floored quotient of a thousandth
  either way does not change that.
\<close>

theorem max_tx_times_min_interval_zero:
  "region longest_g2 = ''eu'' \<and> airtime longest_g2 > 0 \<and> duty_limit longest_g2 > 0 \<and>
   max_tx_per_hour 0 longest_g2 * min_interval_s longest_g2 = 0 \<and>
   max_tx_per_hour (1 / 1000) longest_g2 * min_interval_s longest_g2 = 0 \<and>
   max_tx_per_hour (- (1 / 1000)) longest_g2 * min_interval_s longest_g2 = 0"
  by (simp add: max_tx_per_hour_def min_interval_s_def airtime_longest_g2 duty_limit_longest_g2)
     (simp add: longest_g2_def)

text \<open>
  Claim C7, amended.  For every EU input with a positive airtime and a positive duty limit,
  the product of \<open>max_tx_per_hour\<close> and \<open>min_interval_s\<close> does not exceed the window
  of 3600 seconds and falls short of it by less than one \<open>min_interval_s\<close>, both up to
  the rounding of the floored quotient: when the relative rounding error \<open>e\<close> of that
  quotient is at most \<open>d\<close> in absolute value, the product lies above
  \<open>3600 * (1 - d) - min_interval_s\<close> and is at most \<open>3600 * (1 + d)\<close>.
\<close>

theorem max_tx_times_min_interval_bounds:
  assumes "region p = ''eu''" and "airtime p > 0" and "duty_limit p > 0"
    and "divisors_nonzero p" and "\<bar>e\<bar> \<le> d"
  shows "3600 * (1 - d) - min_interval_s p < max_tx_per_hour e p * min_interval_s p \<and>
         max_tx_per_hour e p * min_interval_s p \<le> 3600 * (1 + d)"
proof -
  define x where "x = (duty_limit p / 100 * 3600000) / airtime p"
  have x: "0 < x" using assms(2,3) by (simp add: x_def)
  have m: "min_interval_s p = 3600 / x"
    using assms(2,3) by (simp add: min_interval_s_def x_def field_simps)
  have f: "max_tx_per_hour e p = of_int \<lfloor>x * (1 + e)\<rfloor>"
    by (simp add: max_tx_per_hour_def x_def)
  from floor_times_window [OF x assms(5)] show ?thesis by (simp add: m f)
qed

text \<open>
  The witness is the state where the exact quotient is 6250 and a quotient rounded just
  below it is floored to 6249: the product 3599.424 is the window less one whole
  \<open>min_interval_s\<close> of 0.576 seconds.
\<close>

theorem max_tx_times_min_interval_bounds_witness:
  "region sf7_g3 = ''eu'' \<and> airtime sf7_g3 > 0 \<and> duty_limit sf7_g3 > 0 \<and>
   divisors_nonzero sf7_g3 \<and> \<bar>- (1 / 2 ^ 50) :: real\<bar> \<le> 1 / 2 ^ 50 \<and>
   min_interval_s sf7_g3 = 0.576 \<and>
   max_tx_per_hour (- (1 / 2 ^ 50)) sf7_g3 * min_interval_s sf7_g3 = 3599.424 \<and>
   3600 * (1 - 1 / 2 ^ 50) - min_interval_s sf7_g3
     < max_tx_per_hour (- (1 / 2 ^ 50)) sf7_g3 * min_interval_s sf7_g3 \<and>
   max_tx_per_hour (- (1 / 2 ^ 50)) sf7_g3 * min_interval_s sf7_g3 \<le> 3600 * (1 + 1 / 2 ^ 50)"
proof -
  have r: "region sf7_g3 = ''eu''" by (simp add: sf7_g3_def)
  have a: "airtime sf7_g3 > 0" by (simp add: airtime_sf7_g3)
  have l: "duty_limit sf7_g3 > 0" by (simp add: duty_limit_sf7_g3)
  have b: "\<bar>- (1 / 2 ^ 50) :: real\<bar> \<le> 1 / 2 ^ 50" by simp
  have m: "min_interval_s sf7_g3 = 0.576"
    by (simp add: min_interval_s_def airtime_sf7_g3 duty_limit_sf7_g3)
  have v: "max_tx_per_hour (- (1 / 2 ^ 50)) sf7_g3 * min_interval_s sf7_g3 = 3599.424"
    using max_tx_sf7_g3 by (simp add: m)
  from max_tx_times_min_interval_bounds [OF r a l divisors_sf7_g3 b]
    r a l divisors_sf7_g3 b m v
  show ?thesis by blast
qed

section \<open>No scheduled transmission\<close>

text \<open>
  Claim C8.  With a transmit interval of 0 the guard keeps the quotient
  \<^verbatim>\<open>60 / txIntervalMin\<close> from being taken: the number of transmissions per hour is the
  finite number 0, and with it the duty used per hour, its percentage of the budget and
  the daily charge; the battery life is \<^verbatim>\<open>Infinity\<close>.  The other outputs (airtime, energy
  per transmission, maximal transmissions per hour, minimal interval, dwell check,
  warnings) are what they are for any other interval.
\<close>

theorem zero_interval_propagates:
  assumes "txIntervalMin p = 0" and "divisors_nonzero p"
  shows "tx_per_hour p = Finite 0 \<and> duty_used_per_hour p = Finite 0 \<and>
         duty_pct_of_limit p = Finite 0 \<and>
         tx_energy_per_day_mAh p = Finite 0 \<and> batt_days p = Infinity \<and>
         airtime (p\<lparr>txIntervalMin := t\<rparr>) = airtime p \<and>
         energy_mJ (p\<lparr>txIntervalMin := t\<rparr>) = energy_mJ p \<and>
         energy_uAh (p\<lparr>txIntervalMin := t\<rparr>) = energy_uAh p \<and>
         max_tx_per_hour e (p\<lparr>txIntervalMin := t\<rparr>) = max_tx_per_hour e p \<and>
         min_interval_s (p\<lparr>txIntervalMin := t\<rparr>) = min_interval_s p \<and>
         us_dwell_ok (p\<lparr>txIntervalMin := t\<rparr>) = us_dwell_ok p \<and>
         warnings (p\<lparr>txIntervalMin := t\<rparr>) = warnings p"
proof -
  have t: "tx_per_hour p = Finite 0"
    using assms(1) by (simp add: tx_per_hour_def)
  have u: "duty_used_per_hour p = Finite 0"
    by (simp add: duty_used_per_hour_def t)
  have q: "duty_pct_of_limit p = Finite 0"
    using duty_limit_pos [of p] by (simp add: duty_pct_of_limit_def u)
  have y: "tx_energy_per_day_mAh p = Finite 0"
    by (simp add: tx_energy_per_day_mAh_def t)
  have b: "batt_days p = Infinity"
    by (simp add: batt_days_def y)
  have a: "airtime (p\<lparr>txIntervalMin := t\<rparr>) = airtime p"
    by (simp add: airtime_defs)
  have l: "duty_limit (p\<lparr>txIntervalMin := t\<rparr>) = duty_limit p"
    by (simp add: duty_limit_def euBandObj_def)
  have c: "current_mA (p\<lparr>txIntervalMin := t\<rparr>) = current_mA p"
    by (simp add: current_mA_def)
  have w: "warnings (p\<lparr>txIntervalMin := t\<rparr>) = warnings p"
    by (simp add: warnings_def us_dwell_ok_def a)
  show ?thesis
    by (simp add: t u q y b a l c w energy_mJ_def energy_uAh_def
        max_tx_per_hour_def min_interval_s_def us_dwell_ok_def)
qed

theorem zero_interval_propagates_witness:
  "txIntervalMin unscheduled = 0 \<and> divisors_nonzero unscheduled \<and>
   tx_per_hour unscheduled = Finite 0 \<and> duty_used_per_hour unscheduled = Finite 0 \<and>
   tx_energy_per_day_mAh unscheduled = Finite 0 \<and> batt_days unscheduled = Infinity \<and>
   airtime unscheduled = 1253.376"
proof -
  have i: "txIntervalMin unscheduled = 0" by (simp add: unscheduled_def)
  have d: "divisors_nonzero unscheduled"
    by (simp add: divisors_nonzero_def unscheduled_def scenario_A_def DE_def)
  have u: "unscheduled\<lparr>txIntervalMin := 15\<rparr> = scenario_A"
    by (simp add: unscheduled_def scenario_A_def)
  from zero_interval_propagates [OF i d, of 15] i d show ?thesis
    by (simp add: u airtime_scenario_A)
qed

section \<open>Table lookups with a fallback\<close>

text \<open>
  Claim C9.  The keys of the current table are 2, 5, 8, 11, 14, 17 and 20 dBm with the
  currents 13, 17, 22, 26, 31, 87 and 120 mA.  For a transmit power that is a key the
  current of the energy model is the table's entry; for any other transmit power it is
  31 mA, the entry of 14 dBm.  Both energy formulas read that current.
\<close>

theorem tx_current_lookup_total:
  "dom TX_CURRENT = {2, 5, 8, 11, 14, 17, 20} \<and>
   TX_CURRENT 2 = Some 13 \<and> TX_CURRENT 5 = Some 17 \<and> TX_CURRENT 8 = Some 22 \<and>
   TX_CURRENT 11 = Some 26 \<and> TX_CURRENT 14 = Some 31 \<and> TX_CURRENT 17 = Some 87 \<and>
   TX_CURRENT 20 = Some 120 \<and>
   (TX_CURRENT (txPower p) = Some c \<longrightarrow> current_mA p = c) \<and>
   (txPower p \<notin> dom TX_CURRENT \<longrightarrow> current_mA p = 31) \<and>
   energy_mJ p = (current_mA p / 1000) * voltage p * (airtime p / 1000) * 1000 \<and>
   energy_uAh p = (current_mA p * (airtime p / 1000)) / 3.6"
  by (auto simp: TX_CURRENT_def current_mA_def energy_mJ_def energy_uAh_def)

theorem tx_current_lookup_total_witness:
  "current_mA (scenario_A\<lparr>txPower := 17\<rparr>) = 87 \<and>
   current_mA (scenario_A\<lparr>txPower := 15\<rparr>) = 31"
proof -
  have k: "TX_CURRENT (txPower (scenario_A\<lparr>txPower := 17\<rparr>)) = Some 87"
    by (simp add: TX_CURRENT_def)
  have n: "txPower (scenario_A\<lparr>txPower := 15\<rparr>) \<notin> dom TX_CURRENT"
    by (simp add: TX_CURRENT_def)
  from tx_current_lookup_total [of "scenario_A\<lparr>txPower := 17\<rparr>" 87]
    tx_current_lookup_total [of "scenario_A\<lparr>txPower := 15\<rparr>"] k n
  show ?thesis by blast
qed

text \<open>
  Claim C10.  When the selected sub-band is none of g, g1, g2 and g3, no entry of
  \<^verbatim>\<open>EU_BANDS\<close> is found and the duty limit is 1 percent: the percentage of the budget,
  the maximal transmissions per hour, the minimal interval and the EU verdict are those of
  a limit of 1 percent.
\<close>

theorem unknown_sub_band_falls_back:
  assumes "euBand p \<notin> {''g'', ''g1'', ''g2'', ''g3''}"
  shows "euBandObj p = None \<and> duty_limit p = 1 \<and>
         duty_used_per_hour p = times_js (Finite (airtime p / 3600000 * 100)) (tx_per_hour p) \<and>
         duty_pct_of_limit p =
           times_js (divide_js (duty_used_per_hour p) (Finite 1)) (Finite 100) \<and>
         max_tx_per_hour e p = of_int \<lfloor>(1 / 100 * 3600000) / airtime p * (1 + e)\<rfloor> \<and>
         min_interval_s p = airtime p / (1 / 100) / 1000 \<and>
         euCompliant p = less_eq_js (duty_used_per_hour p) (Finite 1) \<and>
         (region p = ''eu'' \<longrightarrow> compliant p = less_eq_js (duty_used_per_hour p) (Finite 1))"
proof -
  have n: "euBandObj p = None"
    using assms by (auto simp: euBandObj_def EU_BANDS_def)
  have l: "duty_limit p = 1"
    by (simp add: duty_limit_def n)
  show ?thesis
    by (simp add: n l duty_used_per_hour_def duty_used_per_tx_def duty_pct_of_limit_def
        max_tx_per_hour_def min_interval_s_def euCompliant_def compliant_def)
qed

theorem unknown_sub_band_falls_back_witness:
  "euBand (scenario_A\<lparr>euBand := ''g4''\<rparr>) \<notin> {''g'', ''g1'', ''g2'', ''g3''} \<and>
   duty_limit (scenario_A\<lparr>euBand := ''g4''\<rparr>) = 1 \<and>
   max_tx_per_hour 0 (scenario_A\<lparr>euBand := ''g4''\<rparr>) = 28"
proof -
  have h: "euBand (scenario_A\<lparr>euBand := ''g4''\<rparr>) \<notin> {''g'', ''g1'', ''g2'', ''g3''}"
    by simp
  have a: "airtime (scenario_A\<lparr>euBand := ''g4''\<rparr>) = 1253.376"
    by (simp add: airtime_defs flag_defs scenario_A_def Let_def)
  from unknown_sub_band_falls_back [OF h, of 0] h show ?thesis
    by (simp add: a)
qed

end
